theory Spec2Isabelle
  imports Complex_Main
begin

section \<open>Python values and failures\<close>

text \<open>
  The scripts compute with Python numbers. They are modelled as exact reals: the
  arithmetic of the model is the arithmetic of the formulas, without rounding.

  A Python exception is a value of \<open>py_error\<close>. Each constructor carries the line of the
  source file on which the failing expression stands, as the traceback of the exception
  does; two divisions by zero in one function are told apart by it.
\<close>

datatype py_error =
    ZeroDivisionError nat
  | ValueError nat
  | IndexError nat
  | StatisticsError nat

text \<open>A number that is either finite or \<^verbatim>\<open>float('inf')\<close>.\<close>

datatype pyfloat = Fin real | PosInf

text \<open>Sequencing: the first exception raised ends the computation.\<close>

definition and_then :: "py_error + 'a \<Rightarrow> ('a \<Rightarrow> py_error + 'b) \<Rightarrow> py_error + 'b" where
  "and_then m f = (case m of Inl e \<Rightarrow> Inl e | Inr v \<Rightarrow> f v)"

text \<open>\<^verbatim>\<open>a / b\<close> on line \<open>l\<close>: Python raises where HOL would return 0.\<close>

definition py_div :: "nat \<Rightarrow> real \<Rightarrow> real \<Rightarrow> py_error + real" where
  "py_div l a b = (if b = 0 then Inl (ZeroDivisionError l) else Inr (a / b))"

text \<open>\<^verbatim>\<open>math.sqrt(a)\<close> on line \<open>l\<close>: a negative argument is a math domain error.\<close>

definition math_sqrt :: "nat \<Rightarrow> real \<Rightarrow> py_error + real" where
  "math_sqrt l a = (if a < 0 then Inl (ValueError l) else Inr (sqrt a))"

section \<open>descriptive\_stats.py\<close>

record descriptive_stats_result =
  ds_n :: nat
  ds_mean :: real
  ds_variance :: real
  ds_std_dev :: real
  ds_cv :: pyfloat
  ds_deviations :: "real list"
  ds_sq_deviations :: "real list"

text \<open>
  \<^verbatim>\<open>descriptive_stats(data)\<close>, lines 19 to 36. The division on line 27 stands under
  the test \<^verbatim>\<open>mean != 0\<close> and cannot raise.
\<close>

definition descriptive_stats :: "real list \<Rightarrow> py_error + descriptive_stats_result" where
  "descriptive_stats data =
    (let n = length data in
     and_then (py_div 22 (sum_list data) (real n)) (\<lambda>mean.
       let deviations = map (\<lambda>x. x - mean) data;
           sq_deviations = map (\<lambda>d. d ^ 2) deviations
       in
       and_then (py_div 25 (sum_list sq_deviations) (real_of_int (int n - 1))) (\<lambda>variance.
       and_then (math_sqrt 26 variance) (\<lambda>std_dev.
         let cv = (if mean \<noteq> 0 then Fin (std_dev / mean) else PosInf)
         in Inr \<lparr>ds_n = n, ds_mean = mean, ds_variance = variance,
                 ds_std_dev = std_dev, ds_cv = cv,
                 ds_deviations = deviations, ds_sq_deviations = sq_deviations\<rparr>))))"

text \<open>The default of \<^verbatim>\<open>--data\<close>, line 53.\<close>

definition fixture_sample :: "real list" where
  "fixture_sample = [120, 100, 130, 122, 120, 78, 100, 100, 130, 80, 100, 120]"

section \<open>least\_squares\_matrix.py\<close>

record regression_result =
  ols_b0 :: real
  ols_b1 :: real
  ols_se_b0 :: real
  ols_se_b1 :: real
  ols_t_b0 :: pyfloat
  ols_t_b1 :: pyfloat
  ols_r_squared :: real
  ols_ss_reg :: real
  ols_ss_res :: real
  ols_ss_tot :: real
  ols_mse :: real
  ols_y_hat :: "real list"
  ols_residuals :: "real list"
  ols_xtx :: "real list list"
  ols_xty :: "real list"
  ols_xtx_inv :: "real list list"
  ols_det :: real

text \<open>
  \<^verbatim>\<open>ols_matrix(x, y)\<close>, lines 19 to 74. \<^verbatim>\<open>zip\<close> stops at the shorter list, as
  \<open>zip\<close> does. The matrices are lists of rows, read at constant positions. The divisions
  on lines 53, 62 and 63 stand under a test of their divisor and cannot raise.
\<close>

definition ols_matrix :: "real list \<Rightarrow> real list \<Rightarrow> py_error + regression_result" where
  "ols_matrix x y =
    (let n = real (length x);
         sum_x = sum_list x;
         sum_x2 = sum_list (map (\<lambda>xi. xi ^ 2) x);
         sum_y = sum_list y;
         sum_xy = sum_list (map (\<lambda>(xi, yi). xi * yi) (zip x y));
         xtx = [[n, sum_x], [sum_x, sum_x2]];
         xty = [sum_y, sum_xy];
         det = xtx ! 0 ! 0 * xtx ! 1 ! 1 - xtx ! 0 ! 1 * xtx ! 1 ! 0
     in
     and_then (py_div 35 (xtx ! 1 ! 1) det) (\<lambda>inv00.
     and_then (py_div 35 (- xtx ! 0 ! 1) det) (\<lambda>inv01.
     and_then (py_div 36 (- xtx ! 1 ! 0) det) (\<lambda>inv10.
     and_then (py_div 36 (xtx ! 0 ! 0) det) (\<lambda>inv11.
       let xtx_inv = [[inv00, inv01], [inv10, inv11]];
           b0 = xtx_inv ! 0 ! 0 * xty ! 0 + xtx_inv ! 0 ! 1 * xty ! 1;
           b1 = xtx_inv ! 1 ! 0 * xty ! 0 + xtx_inv ! 1 ! 1 * xty ! 1;
           y_hat = map (\<lambda>xi. b0 + b1 * xi) x;
           residuals = map (\<lambda>(yi, yhi). yi - yhi) (zip y y_hat)
       in
       and_then (py_div 46 sum_y n) (\<lambda>y_mean.
         let ss_res = sum_list (map (\<lambda>r. r ^ 2) residuals);
             ss_tot = sum_list (map (\<lambda>yi. (yi - y_mean) ^ 2) y);
             ss_reg = ss_tot - ss_res;
             r_squared = (if ss_tot > 0 then 1 - ss_res / ss_tot else 0);
             p = 2
         in
         and_then (py_div 57 ss_res (n - p)) (\<lambda>mse.
         and_then (math_sqrt 58 (mse * xtx_inv ! 0 ! 0)) (\<lambda>se_b0.
         and_then (math_sqrt 59 (mse * xtx_inv ! 1 ! 1)) (\<lambda>se_b1.
           let t_b0 = (if se_b0 > 0 then Fin (b0 / se_b0) else PosInf);
               t_b1 = (if se_b1 > 0 then Fin (b1 / se_b1) else PosInf)
           in Inr \<lparr>ols_b0 = b0, ols_b1 = b1,
                   ols_se_b0 = se_b0, ols_se_b1 = se_b1,
                   ols_t_b0 = t_b0, ols_t_b1 = t_b1,
                   ols_r_squared = r_squared,
                   ols_ss_reg = ss_reg, ols_ss_res = ss_res, ols_ss_tot = ss_tot,
                   ols_mse = mse,
                   ols_y_hat = y_hat, ols_residuals = residuals,
                   ols_xtx = xtx, ols_xty = xty, ols_xtx_inv = xtx_inv,
                   ols_det = det\<rparr>)))))))))"

subsection \<open>Quantities the properties are stated with\<close>

text \<open>The determinant of \<open>X'X = [[n, \<Sigma>x], [\<Sigma>x, \<Sigma>x\<^sup>2]]\<close>, as line 33 computes it.\<close>

definition det_xtx :: "real list \<Rightarrow> real" where
  "det_xtx x =
     real (length x) * sum_list (map (\<lambda>xi. xi ^ 2) x) - sum_list x * sum_list x"

text \<open>
  The closed form in the words of the specification: the inverse of \<open>[[a, b], [c, d]]\<close>
  is \<open>(1 / det) * [[d, - b], [- c, a]]\<close>, and \<open>beta\<close> is that inverse times \<open>X'Y\<close>.
\<close>

definition spec_inverse :: "real \<Rightarrow> real \<Rightarrow> real \<Rightarrow> real \<Rightarrow> (real \<times> real) \<times> (real \<times> real)" where
  "spec_inverse a b c d =
     (let k = 1 / (a * d - b * c) in ((k * d, k * (- b)), (k * (- c), k * a)))"

definition spec_beta :: "real list \<Rightarrow> real list \<Rightarrow> real \<times> real" where
  "spec_beta x y =
     (let sx = sum_list x;
          ((i00, i01), (i10, i11)) =
             spec_inverse (real (length x)) sx sx (sum_list (map (\<lambda>xi. xi ^ 2) x));
          sy = sum_list y;
          sxy = sum_list (map (\<lambda>(xi, yi). xi * yi) (zip x y))
      in (i00 * sy + i01 * sxy, i10 * sy + i11 * sxy))"

section \<open>sampling\_exercise.py\<close>

text \<open>
  The module \<^verbatim>\<open>random\<close> of the standard library keeps one generator for the whole
  process. Its state is passed explicitly: \<open>'g\<close> is the type of generator states, and the
  three operations the script uses are parameters. \<open>rnd_seed s\<close> is the state after
  \<^verbatim>\<open>random.seed(s)\<close>; \<open>rnd_gauss g mu sigma\<close> is the value of
  \<^verbatim>\<open>random.gauss(mu, sigma)\<close> in state \<open>g\<close> with the state after it;
  \<open>rnd_randbelow g m\<close> is the generator's next integer below \<open>m\<close>, with the state after it.
\<close>

record 'g random_module =
  rnd_seed :: "int \<Rightarrow> 'g"
  rnd_gauss :: "'g \<Rightarrow> real \<Rightarrow> real \<Rightarrow> real \<times> 'g"
  rnd_randbelow :: "'g \<Rightarrow> nat \<Rightarrow> nat \<times> 'g"

text \<open>\<^verbatim>\<open>if seed is not None: random.seed(seed)\<close>, lines 23, 24 and 30, 31.\<close>

definition reseed :: "'g random_module \<Rightarrow> int option \<Rightarrow> 'g \<Rightarrow> 'g" where
  "reseed R seed g = (case seed of None \<Rightarrow> g | Some s \<Rightarrow> rnd_seed R s)"

text \<open>The comprehension of line 25: one draw for each element, each clamped at zero.\<close>

fun gauss_draws :: "'g random_module \<Rightarrow> real \<Rightarrow> real \<Rightarrow> nat \<Rightarrow> 'g \<Rightarrow> real list \<times> 'g" where
  "gauss_draws R mean std_dev 0 g = ([], g)"
| "gauss_draws R mean std_dev (Suc k) g =
     (let (v, g1) = rnd_gauss R g mean std_dev;
          (vs, g2) = gauss_draws R mean std_dev k g1
      in (max 0 v # vs, g2))"

text \<open>
  \<^verbatim>\<open>generate_population(mean, std_dev, n, seed)\<close>, lines 21 to 25.
  \<^verbatim>\<open>range(n)\<close> is empty for a negative \<open>n\<close>.
\<close>

definition generate_population ::
  "'g random_module \<Rightarrow> real \<Rightarrow> real \<Rightarrow> int \<Rightarrow> int option \<Rightarrow> 'g \<Rightarrow> real list \<times> 'g" where
  "generate_population R mean std_dev n seed g =
     gauss_draws R mean std_dev (nat n) (reseed R seed g)"

text \<open>
  The values that the generator gives to the draws of line 25, before they are clamped.
\<close>

fun gauss_values :: "'g random_module \<Rightarrow> real \<Rightarrow> real \<Rightarrow> nat \<Rightarrow> 'g \<Rightarrow> real list" where
  "gauss_values R mean std_dev 0 g = []"
| "gauss_values R mean std_dev (Suc k) g =
     (let (v, g1) = rnd_gauss R g mean std_dev in v # gauss_values R mean std_dev k g1)"

text \<open>
  A small generator for the examples: a linear congruential sequence modulo 16.
\<close>

definition lcg_next :: "nat \<Rightarrow> nat" where
  "lcg_next g = (g * 5 + 3) mod 16"

definition lcg :: "nat random_module" where
  "lcg = \<lparr>rnd_seed = (\<lambda>s. nat \<bar>s\<bar>),
          rnd_gauss = (\<lambda>g mu sigma. (mu + sigma * (real (g mod 7) - 3), lcg_next g)),
          rnd_randbelow = (\<lambda>g m. (g mod m, lcg_next g))\<rparr>"





text \<open>\<^verbatim>\<open>sample_size_infinite(z, cv, precision)\<close>, lines 46 to 48.\<close>

definition sample_size_infinite :: "real \<Rightarrow> real \<Rightarrow> real \<Rightarrow> py_error + real" where
  "sample_size_infinite z cv precision =
     and_then (py_div 48 (z * cv) precision) (\<lambda>q. Inr (q ^ 2))"

text \<open>\<^verbatim>\<open>sample_size_finite(n0, N)\<close>, lines 51 to 53.\<close>

definition sample_size_finite :: "real \<Rightarrow> real \<Rightarrow> py_error + real" where
  "sample_size_finite n0 N = py_div 53 (n0 * N) (n0 + N)"

text \<open>The dictionary of line 58.\<close>

definition z_table :: "int \<rightharpoonup> real" where
  "z_table = map_of [(80, 1.282), (85, 1.440), (90, 1.645), (95, 1.960), (99, 2.576)]"

text \<open>
  \<^verbatim>\<open>NormalDist().inv_cdf(p)\<close> of the standard library: it raises
  \<^verbatim>\<open>StatisticsError\<close> unless \<open>0 < p < 1\<close>; there its value is the quantile \<open>q p\<close> of the
  standard normal distribution, a parameter of the model.
\<close>

definition inv_cdf :: "(real \<Rightarrow> real) \<Rightarrow> nat \<Rightarrow> real \<Rightarrow> py_error + real" where
  "inv_cdf q l p = (if p \<le> 0 \<or> 1 \<le> p then Inl (StatisticsError l) else Inr (q p))"

text \<open>\<^verbatim>\<open>z_score(confidence_pct)\<close>, lines 56 to 63.\<close>

definition z_score :: "(real \<Rightarrow> real) \<Rightarrow> int \<Rightarrow> py_error + real" where
  "z_score q confidence_pct =
     (case z_table confidence_pct of
        Some z \<Rightarrow> Inr z
      | None \<Rightarrow> inv_cdf q 63 (0.5 + real_of_int confidence_pct / 200))"

text \<open>
  \<^verbatim>\<open>run_sample_size_calc(cv, precision, confidence, pop_size)\<close>, lines 160 to 183.
  The function prints what it computes; the model returns \<open>z\<close>, \<open>n0\<close>, \<open>n_final\<close> and
  the rows of the comparison. \<^verbatim>\<open>if pop_size\<close> holds for a population size that is
  neither \<^verbatim>\<open>None\<close> nor zero, and under it \<open>pop_size\<close> is \<open>Some N\<close>.
\<close>

record sample_size_report =
  ssr_z :: real
  ssr_n0 :: real
  ssr_n_final :: "real option"
  ssr_scenarios :: "(int \<times> real \<times> int \<times> int) list"

definition truthy :: "int option \<Rightarrow> bool" where
  "truthy pop_size = (case pop_size of None \<Rightarrow> False | Some N \<Rightarrow> N \<noteq> 0)"

fun traverse :: "('a \<Rightarrow> py_error + 'b) \<Rightarrow> 'a list \<Rightarrow> py_error + 'b list" where
  "traverse f [] = Inr []"
| "traverse f (a # as) =
     and_then (f a) (\<lambda>b. and_then (traverse f as) (\<lambda>bs. Inr (b # bs)))"

text \<open>One row of the scenario comparison, lines 180 to 183.\<close>

definition scenario_row ::
  "(real \<Rightarrow> real) \<Rightarrow> real \<Rightarrow> int option \<Rightarrow> int \<times> real \<Rightarrow> py_error + (int \<times> real \<times> int \<times> int)" where
  "scenario_row q cv pop_size cp =
     (let conf = fst cp; prec = snd cp in
      and_then (z_score q conf) (\<lambda>z_val.
      and_then (sample_size_infinite z_val cv prec) (\<lambda>n0_val.
      and_then (if truthy pop_size
                then sample_size_finite n0_val (real_of_int (the pop_size))
                else Inr n0_val) (\<lambda>n_val.
        Inr (conf, prec, \<lceil>n0_val\<rceil>, \<lceil>n_val\<rceil>)))))"

definition run_sample_size_calc ::
  "(real \<Rightarrow> real) \<Rightarrow> real \<Rightarrow> real \<Rightarrow> int \<Rightarrow> int option \<Rightarrow> py_error + sample_size_report" where
  "run_sample_size_calc q cv precision confidence pop_size =
     and_then (z_score q confidence) (\<lambda>z.
     and_then (sample_size_infinite z cv precision) (\<lambda>n0.
     and_then (if truthy pop_size
               then and_then (sample_size_finite n0 (real_of_int (the pop_size)))
                      (\<lambda>n_final. Inr (Some n_final))
               else Inr None) (\<lambda>n_final.
     and_then (traverse (scenario_row q cv pop_size)
                 (concat (map (\<lambda>conf. map (\<lambda>prec. (conf, prec)) [0.05, 0.10, 0.20])
                            [80, 90, 95]))) (\<lambda>rows.
       Inr \<lparr>ssr_z = z, ssr_n0 = n0, ssr_n_final = n_final, ssr_scenarios = rows\<rparr>))))"

section \<open>Basic facts\<close>

lemma and_then_Inr [simp]: "and_then (Inr v) f = f v"
  by (simp add: and_then_def)

lemma and_then_Inl [simp]: "and_then (Inl e) f = Inl e"
  by (simp add: and_then_def)

lemma py_div_zero [simp]: "py_div l a 0 = Inl (ZeroDivisionError l)"
  by (simp add: py_div_def)

lemma py_div_nonzero [simp]: "b \<noteq> 0 \<Longrightarrow> py_div l a b = Inr (a / b)"
  by (simp add: py_div_def)

lemma math_sqrt_nonneg [simp]: "0 \<le> a \<Longrightarrow> math_sqrt l a = Inr (sqrt a)"
  by (simp add: math_sqrt_def)

lemma math_sqrt_neg [simp]: "a < 0 \<Longrightarrow> math_sqrt l a = Inl (ValueError l)"
  by (simp add: math_sqrt_def)

lemma sum_list_squares_nonneg: "0 \<le> sum_list (map (\<lambda>d. d ^ 2) (ds :: real list))"
  by (induction ds) simp_all

lemma sqrt_bounds:
  assumes "0 \<le> lo" "lo ^ 2 < a" "a < hi ^ 2" "0 \<le> hi"
  shows "lo < sqrt a \<and> sqrt a < hi"
  using assms by (simp add: real_less_rsqrt real_less_lsqrt)

section \<open>Descriptive statistics\<close>

lemma descriptive_stats_empty: "descriptive_stats [] = Inl (ZeroDivisionError 22)"
  by (simp add: descriptive_stats_def)

lemma descriptive_stats_single: "descriptive_stats [a] = Inl (ZeroDivisionError 25)"
  by (simp add: descriptive_stats_def)

text \<open>
  With two observations or more neither division fails, and the variance is not
  negative, so the square root is defined: the function returns, and what it returns is
  read off the code.
\<close>

lemma descriptive_stats_returns:
  assumes "2 \<le> length data"
  shows "descriptive_stats data =
    (let n = length data;
         mean = sum_list data / real n;
         deviations = map (\<lambda>x. x - mean) data;
         sq_deviations = map (\<lambda>d. d ^ 2) deviations;
         variance = sum_list sq_deviations / (real n - 1);
         std_dev = sqrt variance
     in Inr \<lparr>ds_n = n, ds_mean = mean, ds_variance = variance,
             ds_std_dev = std_dev,
             ds_cv = (if mean \<noteq> 0 then Fin (std_dev / mean) else PosInf),
             ds_deviations = deviations, ds_sq_deviations = sq_deviations\<rparr>)"
proof -
  have n0: "real (length data) \<noteq> 0" and n1: "real_of_int (int (length data) - 1) \<noteq> 0"
    using assms by auto
  have n1': "real_of_int (int (length data) - 1) = real (length data) - 1"
    by simp
  have pos: "0 < real (length data) - 1"
    using assms by simp
  have var: "0 \<le> sum_list (map (\<lambda>d. d ^ 2) (map (\<lambda>x. x - m) data)) / (real (length data) - 1)"
    for m
    using sum_list_squares_nonneg pos by (intro divide_nonneg_pos)
  show ?thesis
    unfolding descriptive_stats_def Let_def
    using n0 n1 var by (simp add: n1')
qed

lemma fixture_sample_stats:
  "descriptive_stats fixture_sample =
     Inr \<lparr>ds_n = 12, ds_mean = 325 / 3, ds_variance = 964 / 3,
          ds_std_dev = sqrt (964 / 3),
          ds_cv = Fin (sqrt (964 / 3) / (325 / 3)),
          ds_deviations = map (\<lambda>x. x - 325 / 3) fixture_sample,
          ds_sq_deviations = map (\<lambda>x. (x - 325 / 3) ^ 2) fixture_sample\<rparr>"
  by (simp add: descriptive_stats_returns fixture_sample_def Let_def power2_eq_square)

lemma fixture_std_dev_bounds:
  "17.92 < sqrt (964 / 3 :: real) \<and> sqrt (964 / 3 :: real) < 17.93"
  by (rule sqrt_bounds) (simp_all add: power2_eq_square)

lemma fixture_cv_bounds:
  "0.1654 < sqrt (964 / 3 :: real) / (325 / 3)
   \<and> sqrt (964 / 3 :: real) / (325 / 3) < 0.1655"
proof -
  have "17.92 < sqrt (964 / 3 :: real) \<and> sqrt (964 / 3 :: real) < 17.929"
    by (rule sqrt_bounds) (simp_all add: power2_eq_square)
  then show ?thesis by (simp add: field_simps)
qed

text \<open>
  C2. A sample with fewer than two observations makes \<open>descriptive_stats\<close> fail: the
  empty sample at the division by \<open>n\<close> on line 22, a single observation at the division
  by \<open>n - 1\<close> on line 25, where the variance is undefined. This
  \<^verbatim>\<open>ZeroDivisionError\<close> is what the specification names
  \<^verbatim>\<open>InsufficientSampleSizeError\<close>. A sample with two observations or more gives a
  complete record: \<open>n\<close> and one deviation and one squared deviation for each observation.
\<close>

theorem descriptive_stats_sample_size:
  "(length data < 2 \<longrightarrow>
      descriptive_stats data = Inl (ZeroDivisionError (if data = [] then 22 else 25)))
   \<and> (2 \<le> length data \<longrightarrow>
      (\<exists>r. descriptive_stats data = Inr r \<and> ds_n r = length data
          \<and> length (ds_deviations r) = length data
          \<and> length (ds_sq_deviations r) = length data))"
proof (intro conjI impI)
  assume "length data < 2"
  then consider "data = []" | a where "data = [a]"
    by (cases data) (auto simp: length_Suc_conv)
  then show "descriptive_stats data = Inl (ZeroDivisionError (if data = [] then 22 else 25))"
    by cases (simp_all add: descriptive_stats_empty descriptive_stats_single)
next
  assume "2 \<le> length data"
  then show "\<exists>r. descriptive_stats data = Inr r \<and> ds_n r = length data
          \<and> length (ds_deviations r) = length data
          \<and> length (ds_sq_deviations r) = length data"
    by (simp add: descriptive_stats_returns Let_def)
qed

theorem descriptive_stats_sample_size_witness:
  "length ([] :: real list) < 2 \<and> descriptive_stats [] = Inl (ZeroDivisionError 22)
   \<and> length [7 :: real] < 2 \<and> descriptive_stats [7] = Inl (ZeroDivisionError 25)
   \<and> 2 \<le> length [1, 2, 6 :: real]
   \<and> (\<exists>r. descriptive_stats [1, 2, 6] = Inr r \<and> ds_n r = 3
          \<and> length (ds_deviations r) = 3 \<and> length (ds_sq_deviations r) = 3)"
  using descriptive_stats_sample_size [of "[]"]
        descriptive_stats_sample_size [of "[7]"]
        descriptive_stats_sample_size [of "[1, 2, 6]"]
  by auto

text \<open>
  C4, the example as the claim states it: on the twelve wattages the mean that
  \<open>descriptive_stats\<close> returns is \<open>1300 / 12 = 325 / 3\<close>, not \<open>100\<close>, and the variance is
  \<open>964 / 3\<close>, about \<open>321.33\<close>, not about \<open>348.18\<close>.
\<close>

theorem descriptive_stats_example_counterexample:
  "map_sum id ds_mean
     (descriptive_stats [120, 100, 130, 122, 120, 78, 100, 100, 130, 80, 100, 120])
     \<noteq> Inr 100
   \<and> map_sum id ds_mean
     (descriptive_stats [120, 100, 130, 122, 120, 78, 100, 100, 130, 80, 100, 120])
     = Inr (325 / 3)
   \<and> map_sum id ds_variance
     (descriptive_stats [120, 100, 130, 122, 120, 78, 100, 100, 130, 80, 100, 120])
     = Inr (964 / 3)"
  using fixture_sample_stats by (simp add: fixture_sample_def)

text \<open>
  C4 as amended. For a sample with two observations or more, \<open>descriptive_stats\<close>
  returns the mean \<open>\<Sigma>x / n\<close>, the deviations \<open>x\<^sub>i - mean\<close>, their squares, the variance
  \<open>\<Sigma>(x\<^sub>i - mean)\<^sup>2 / (n - 1)\<close> with Bessel's correction, its square root as standard
  deviation, and as coefficient of variation \<open>std_dev / mean\<close>, or infinity when the mean
  is zero. On the twelve wattages it returns \<open>n = 12\<close>, the mean \<open>325 / 3\<close> (about
  \<open>108.33\<close>), the variance \<open>964 / 3\<close> (about \<open>321.33\<close>), a standard deviation between
  \<open>17.92\<close> and \<open>17.93\<close> and a coefficient of variation between \<open>0.1654\<close> and \<open>0.1655\<close>.
\<close>

theorem descriptive_stats_formulas:
  "(2 \<le> length data \<longrightarrow>
     (\<exists>r. descriptive_stats data = Inr r
        \<and> ds_n r = length data
        \<and> ds_mean r = sum_list data / real (length data)
        \<and> ds_deviations r = map (\<lambda>x. x - ds_mean r) data
        \<and> ds_sq_deviations r = map (\<lambda>d. d ^ 2) (ds_deviations r)
        \<and> ds_variance r = sum_list (ds_sq_deviations r) / (real (length data) - 1)
        \<and> ds_std_dev r = sqrt (ds_variance r)
        \<and> ds_cv r = (if ds_mean r \<noteq> 0 then Fin (ds_std_dev r / ds_mean r) else PosInf)))
   \<and> (\<exists>r. descriptive_stats fixture_sample = Inr r
        \<and> ds_n r = 12 \<and> ds_mean r = 325 / 3 \<and> ds_variance r = 964 / 3
        \<and> 17.92 < ds_std_dev r \<and> ds_std_dev r < 17.93
        \<and> ds_cv r = Fin (ds_std_dev r / ds_mean r)
        \<and> 0.1654 < ds_std_dev r / ds_mean r \<and> ds_std_dev r / ds_mean r < 0.1655)"
proof (intro conjI impI)
  assume "2 \<le> length data"
  then show "\<exists>r. descriptive_stats data = Inr r
        \<and> ds_n r = length data
        \<and> ds_mean r = sum_list data / real (length data)
        \<and> ds_deviations r = map (\<lambda>x. x - ds_mean r) data
        \<and> ds_sq_deviations r = map (\<lambda>d. d ^ 2) (ds_deviations r)
        \<and> ds_variance r = sum_list (ds_sq_deviations r) / (real (length data) - 1)
        \<and> ds_std_dev r = sqrt (ds_variance r)
        \<and> ds_cv r = (if ds_mean r \<noteq> 0 then Fin (ds_std_dev r / ds_mean r) else PosInf)"
    by (simp add: descriptive_stats_returns Let_def)
next
  show "\<exists>r. descriptive_stats fixture_sample = Inr r
        \<and> ds_n r = 12 \<and> ds_mean r = 325 / 3 \<and> ds_variance r = 964 / 3
        \<and> 17.92 < ds_std_dev r \<and> ds_std_dev r < 17.93
        \<and> ds_cv r = Fin (ds_std_dev r / ds_mean r)
        \<and> 0.1654 < ds_std_dev r / ds_mean r \<and> ds_std_dev r / ds_mean r < 0.1655"
    using fixture_std_dev_bounds fixture_cv_bounds
    by (simp add: fixture_sample_stats)
qed

theorem descriptive_stats_formulas_witness:
  "2 \<le> length [1, 2, 6 :: real]
   \<and> (\<exists>r. descriptive_stats [1, 2, 6] = Inr r \<and> ds_mean r = 3
        \<and> ds_deviations r = [- 2, - 1, 3] \<and> ds_variance r = 7
        \<and> ds_std_dev r = sqrt 7 \<and> ds_cv r = Fin (sqrt 7 / 3))
   \<and> 2 \<le> length [- 1, 1 :: real]
   \<and> (\<exists>r. descriptive_stats [- 1, 1] = Inr r \<and> ds_mean r = 0 \<and> ds_cv r = PosInf)"
proof -
  from descriptive_stats_formulas [of "[1, 2, 6]"]
  obtain r where r: "descriptive_stats [1, 2, 6] = Inr r" "ds_mean r = 3"
      "ds_deviations r = [- 2, - 1, 3]" "ds_variance r = 7"
      "ds_std_dev r = sqrt 7" "ds_cv r = Fin (sqrt 7 / 3)"
    by auto
  from descriptive_stats_formulas [of "[- 1, 1]"]
  obtain s where s: "descriptive_stats [- 1, 1] = Inr s" "ds_mean s = 0" "ds_cv s = PosInf"
    by auto
  from r s show ?thesis by simp
qed

section \<open>Least squares\<close>

lemma sum_sq_shift:
  "sum_list (map (\<lambda>v. (v - m) ^ 2) xs) =
     sum_list (map (\<lambda>v. v ^ 2) xs) - 2 * m * sum_list xs + real (length xs) * m ^ 2"
  for m :: real
  by (induction xs) (simp_all add: algebra_simps power2_eq_square)

lemma sum_sq_zero_iff:
  "sum_list (map (\<lambda>v. (v - m) ^ 2) xs) = 0 \<longleftrightarrow> (\<forall>v\<in>set xs. v = m)"
  for m :: real
proof (induction xs)
  case Nil
  show ?case by simp
next
  case (Cons a xs)
  have nn: "0 \<le> sum_list (map (\<lambda>v. (v - m) ^ 2) xs)"
    using sum_list_squares_nonneg [of "map (\<lambda>v. v - m) xs"] by (simp add: comp_def)
  have "(a - m) ^ 2 + sum_list (map (\<lambda>v. (v - m) ^ 2) xs) = 0
        \<longleftrightarrow> (a - m) ^ 2 = 0 \<and> sum_list (map (\<lambda>v. (v - m) ^ 2) xs) = 0"
    using nn by (simp add: add_nonneg_eq_0_iff)
  with Cons.IH show ?case by auto
qed

text \<open>
  The determinant is \<open>n\<close> times the sum of the squared deviations of \<open>x\<close> from its mean:
  it is never negative, and it vanishes exactly when all \<open>x\<close> values are the same.
\<close>

lemma det_xtx_deviations:
  assumes "x \<noteq> []"
  shows "det_xtx x =
     real (length x) * sum_list (map (\<lambda>v. (v - sum_list x / real (length x)) ^ 2) x)"
proof -
  have n: "real (length x) \<noteq> 0" using assms by simp
  show ?thesis
    unfolding det_xtx_def sum_sq_shift using n
    by (simp add: field_simps power2_eq_square)
qed

lemma det_xtx_nonneg: "0 \<le> det_xtx x"
proof (cases "x = []")
  case True
  then show ?thesis by (simp add: det_xtx_def)
next
  case False
  have "0 \<le> sum_list (map (\<lambda>v. (v - sum_list x / real (length x)) ^ 2) x)"
    using sum_list_squares_nonneg [of "map (\<lambda>v. v - sum_list x / real (length x)) x"]
    by (simp add: comp_def)
  then show ?thesis
    by (simp add: det_xtx_deviations [OF False])
qed

lemma sum_list_constant: "\<forall>v\<in>set xs. v = c \<Longrightarrow> sum_list xs = real (length xs) * c"
  by (induction xs) (simp_all add: algebra_simps)

text \<open>The squared deviations from the mean sum to zero exactly for a constant list.\<close>

lemma sum_sq_mean_zero_iff:
  assumes "xs \<noteq> []"
  shows "sum_list (map (\<lambda>v. (v - sum_list xs / real (length xs)) ^ 2) xs) = 0
         \<longleftrightarrow> (\<forall>a\<in>set xs. \<forall>b\<in>set xs. a = b)"
proof -
  let ?m = "sum_list xs / real (length xs)"
  have n: "real (length xs) \<noteq> 0" using assms by simp
  have "(\<forall>v\<in>set xs. v = ?m) \<longleftrightarrow> (\<forall>a\<in>set xs. \<forall>b\<in>set xs. a = b)"
  proof
    assume "\<forall>v\<in>set xs. v = ?m"
    then show "\<forall>a\<in>set xs. \<forall>b\<in>set xs. a = b" by metis
  next
    assume same: "\<forall>a\<in>set xs. \<forall>b\<in>set xs. a = b"
    obtain c where c: "c \<in> set xs" using assms by (cases xs) auto
    with same have all: "\<forall>v\<in>set xs. v = c" by blast
    then have "?m = c" using n by (simp add: sum_list_constant)
    with all show "\<forall>v\<in>set xs. v = ?m" by simp
  qed
  then show ?thesis
    by (simp only: sum_sq_zero_iff)
qed


lemma ols_matrix_singular:
  assumes "det_xtx x = 0"
  shows "ols_matrix x y = Inl (ZeroDivisionError 35)"
  using assms unfolding ols_matrix_def det_xtx_def Let_def
  by (simp add: power2_eq_square)

lemma det_xtx_short: "length x \<le> 1 \<Longrightarrow> det_xtx x = 0"
proof -
  assume "length x \<le> 1"
  then consider "x = []" | a where "x = [a]"
    by (cases x) (auto simp: length_Suc_conv)
  then show ?thesis
    by cases (simp_all add: det_xtx_def power2_eq_square)
qed

lemma ols_matrix_two_observations:
  assumes "det_xtx x \<noteq> 0" "length x = 2"
  shows "ols_matrix x y = Inl (ZeroDivisionError 57)"
  using assms unfolding ols_matrix_def det_xtx_def Let_def
  by (simp add: power2_eq_square)

lemma ols_matrix_returns:
  assumes "det_xtx x \<noteq> 0" "length x \<noteq> 2"
  shows "ols_matrix x y =
    (let n = real (length x);
         sum_x = sum_list x;
         sum_x2 = sum_list (map (\<lambda>xi. xi ^ 2) x);
         sum_y = sum_list y;
         sum_xy = sum_list (map (\<lambda>(xi, yi). xi * yi) (zip x y));
         det = det_xtx x;
         b0 = sum_x2 / det * sum_y + - sum_x / det * sum_xy;
         b1 = - sum_x / det * sum_y + n / det * sum_xy;
         y_hat = map (\<lambda>xi. b0 + b1 * xi) x;
         residuals = map (\<lambda>(yi, yhi). yi - yhi) (zip y y_hat);
         ss_res = sum_list (map (\<lambda>r. r ^ 2) residuals);
         ss_tot = sum_list (map (\<lambda>yi. (yi - sum_y / n) ^ 2) y);
         mse = ss_res / (n - 2);
         se_b0 = sqrt (mse * (sum_x2 / det));
         se_b1 = sqrt (mse * (n / det))
     in Inr \<lparr>ols_b0 = b0, ols_b1 = b1,
             ols_se_b0 = se_b0, ols_se_b1 = se_b1,
             ols_t_b0 = (if se_b0 > 0 then Fin (b0 / se_b0) else PosInf),
             ols_t_b1 = (if se_b1 > 0 then Fin (b1 / se_b1) else PosInf),
             ols_r_squared = (if ss_tot > 0 then 1 - ss_res / ss_tot else 0),
             ols_ss_reg = ss_tot - ss_res, ols_ss_res = ss_res, ols_ss_tot = ss_tot,
             ols_mse = mse,
             ols_y_hat = y_hat, ols_residuals = residuals,
             ols_xtx = [[n, sum_x], [sum_x, sum_x2]], ols_xty = [sum_y, sum_xy],
             ols_xtx_inv = [[sum_x2 / det, - sum_x / det], [- sum_x / det, n / det]],
             ols_det = det\<rparr>)"
proof -
  have len: "3 \<le> length x"
    using assms det_xtx_short [of x] by (cases "length x \<le> 1") auto
  have det_pos: "0 < det_xtx x"
    using assms(1) det_xtx_nonneg [of x] by simp
  have n0: "real (length x) \<noteq> 0" and n2: "real (length x) - 2 \<noteq> 0"
    and n2pos: "0 < real (length x) - 2"
    using len by auto
  have sxx: "0 \<le> sum_list (map (\<lambda>xi. xi ^ 2) x)"
    by (rule sum_list_squares_nonneg)
  have mse: "0 \<le> sum_list (map (\<lambda>r. r ^ 2) rs) / (real (length x) - 2)" for rs :: "real list"
    using sum_list_squares_nonneg [of rs] n2pos by (intro divide_nonneg_pos)
  have inv00: "0 \<le> sum_list (map (\<lambda>xi. xi ^ 2) x) / det_xtx x"
    using sxx det_pos by (intro divide_nonneg_pos)
  have inv11: "0 \<le> real (length x) / det_xtx x"
    using det_pos by (intro divide_nonneg_pos) simp_all
  have s0: "0 \<le> sum_list (map (\<lambda>r. r ^ 2) rs) / (real (length x) - 2)
                  * (sum_list (map (\<lambda>xi. xi ^ 2) x) / det_xtx x)" for rs :: "real list"
    using mse [of rs] inv00 by (rule mult_nonneg_nonneg)
  have s1: "0 \<le> sum_list (map (\<lambda>r. r ^ 2) rs) / (real (length x) - 2)
                  * (real (length x) / det_xtx x)" for rs :: "real list"
    using mse [of rs] inv11 by (rule mult_nonneg_nonneg)
  let ?d = "real (length x) * sum_list (map (\<lambda>xi. xi ^ 2) x) - sum_list x * sum_list x"
  have dd: "?d = det_xtx x"
    by (simp add: det_xtx_def)
  have d: "py_div l a ?d = Inr (a / ?d)" for l a
    using assms(1) by (simp add: dd)
  have m1: "py_div 46 a (real (length x)) = Inr (a / real (length x))" for a
    using n0 by simp
  have m2: "py_div 57 a (real (length x) - 2) = Inr (a / (real (length x) - 2))" for a
    using n2 by simp
  have r58: "math_sqrt 58 (sum_list (map (\<lambda>r. r ^ 2) rs) / (real (length x) - 2)
                  * (sum_list (map (\<lambda>xi. xi ^ 2) x) / ?d))
             = Inr (sqrt (sum_list (map (\<lambda>r. r ^ 2) rs) / (real (length x) - 2)
                  * (sum_list (map (\<lambda>xi. xi ^ 2) x) / ?d)))" for rs :: "real list"
    using s0 [of rs] by (simp only: dd math_sqrt_nonneg)
  have r59: "math_sqrt 59 (sum_list (map (\<lambda>r. r ^ 2) rs) / (real (length x) - 2)
                  * (real (length x) / ?d))
             = Inr (sqrt (sum_list (map (\<lambda>r. r ^ 2) rs) / (real (length x) - 2)
                  * (real (length x) / ?d)))" for rs :: "real list"
    using s1 [of rs] by (simp only: dd math_sqrt_nonneg)
  show ?thesis
    unfolding ols_matrix_def det_xtx_def Let_def
    by (simp only: nth_Cons_0 nth_Cons_Suc One_nat_def d m1 m2 r58 r59 and_then_Inr)
qed

lemma ss_res_expand:
  fixes b0 b1 :: real
  assumes "length x = length y"
  shows "sum_list (map (\<lambda>r. r ^ 2)
            (map (\<lambda>(yi, yhi). yi - yhi) (zip y (map (\<lambda>xi. b0 + b1 * xi) x)))) =
         sum_list (map (\<lambda>yi. yi ^ 2) y) - 2 * b0 * sum_list y
           - 2 * b1 * sum_list (map (\<lambda>(xi, yi). xi * yi) (zip x y))
           + real (length x) * b0 ^ 2 + 2 * b0 * b1 * sum_list x
           + b1 ^ 2 * sum_list (map (\<lambda>xi. xi ^ 2) x)"
  using assms
  by (induction x y rule: list_induct2) (simp_all add: algebra_simps power2_eq_square)

lemma normal_equations:
  fixes n sx sxx sy sxy d :: real
  assumes "d \<noteq> 0" and "d = n * sxx - sx * sx"
  shows "n * (sxx / d * sy + - sx / d * sxy) + (- sx / d * sy + n / d * sxy) * sx = sy"
    and "(sxx / d * sy + - sx / d * sxy) * sx + (- sx / d * sy + n / d * sxy) * sxx = sxy"
proof -
  have "d * (n * (sxx / d * sy + - sx / d * sxy) + (- sx / d * sy + n / d * sxy) * sx) = d * sy"
    using assms(1) by (simp add: field_simps) (simp add: assms(2) algebra_simps)
  then show "n * (sxx / d * sy + - sx / d * sxy) + (- sx / d * sy + n / d * sxy) * sx = sy"
    using assms(1) by simp
  have "d * ((sxx / d * sy + - sx / d * sxy) * sx + (- sx / d * sy + n / d * sxy) * sxx)
        = d * sxy"
    using assms(1) by (simp add: field_simps) (simp add: assms(2) algebra_simps)
  then show "(sxx / d * sy + - sx / d * sxy) * sx + (- sx / d * sy + n / d * sxy) * sxx = sxy"
    using assms(1) by simp
qed

lemma decomposition_algebra:
  fixes n sx sxx sy sxy syy b0 b1 :: real
  assumes "n \<noteq> 0" "n * b0 + b1 * sx = sy" "b0 * sx + b1 * sxx = sxy"
  shows "(syy - 2 * (sy / n) * sy + n * (sy / n) ^ 2)
         - (syy - 2 * b0 * sy - 2 * b1 * sxy + n * b0 ^ 2 + 2 * b0 * b1 * sx + b1 ^ 2 * sxx)
         = b1 ^ 2 * (n * sxx - sx * sx) / n"
  unfolding assms(2,3) [symmetric] using assms(1)
  by (simp add: field_simps power2_eq_square)

lemma ols_matrix_fields:
  assumes "det_xtx x \<noteq> 0" "length x \<noteq> 2"
  shows "\<exists>r. ols_matrix x y = Inr r
    \<and> ols_b0 r = sum_list (map (\<lambda>xi. xi ^ 2) x) / det_xtx x * sum_list y
                    + - sum_list x / det_xtx x * sum_list (map (\<lambda>(xi, yi). xi * yi) (zip x y))
    \<and> ols_b1 r = - sum_list x / det_xtx x * sum_list y
                    + real (length x) / det_xtx x * sum_list (map (\<lambda>(xi, yi). xi * yi) (zip x y))
    \<and> ols_ss_res r = sum_list (map (\<lambda>r. r ^ 2)
            (map (\<lambda>(yi, yhi). yi - yhi) (zip y (map (\<lambda>xi. ols_b0 r + ols_b1 r * xi) x))))
    \<and> ols_ss_tot r = sum_list (map (\<lambda>yi. (yi - sum_list y / real (length x)) ^ 2) y)
    \<and> ols_ss_reg r = ols_ss_tot r - ols_ss_res r
    \<and> ols_r_squared r = (if ols_ss_tot r > 0 then 1 - ols_ss_res r / ols_ss_tot r else 0)
    \<and> ols_det r = det_xtx x"
  unfolding ols_matrix_returns [OF assms] Let_def
  by (intro exI conjI, rule refl) (simp_all only: regression_result.select_convs)

lemma ols_matrix_ss_reg:
  assumes len: "length x = length y" and det: "det_xtx x \<noteq> 0" and n2: "length x \<noteq> 2"
    and r: "ols_matrix x y = Inr r"
  shows "ols_ss_tot r - ols_ss_res r = (ols_b1 r) ^ 2 * det_xtx x / real (length x)"
proof -
  from ols_matrix_fields [OF det n2, of y] obtain r' where r': "ols_matrix x y = Inr r'"
    and b0': "ols_b0 r' = sum_list (map (\<lambda>xi. xi ^ 2) x) / det_xtx x * sum_list y
                + - sum_list x / det_xtx x * sum_list (map (\<lambda>(xi, yi). xi * yi) (zip x y))"
    and b1': "ols_b1 r' = - sum_list x / det_xtx x * sum_list y
                + real (length x) / det_xtx x * sum_list (map (\<lambda>(xi, yi). xi * yi) (zip x y))"
    and res': "ols_ss_res r' = sum_list (map (\<lambda>r. r ^ 2)
            (map (\<lambda>(yi, yhi). yi - yhi) (zip y (map (\<lambda>xi. ols_b0 r' + ols_b1 r' * xi) x))))"
    and tot': "ols_ss_tot r' = sum_list (map (\<lambda>yi. (yi - sum_list y / real (length x)) ^ 2) y)"
    by blast
  have eq: "r' = r" using r r' by simp
  note b0 = b0' [unfolded eq] and b1 = b1' [unfolded eq]
    and res = res' [unfolded eq] and tot = tot' [unfolded eq]
  have nz: "real (length x) \<noteq> 0"
    using det det_xtx_short [of x] by (cases "length x \<le> 1") auto
  have ne1: "real (length x) * ols_b0 r + ols_b1 r * sum_list x = sum_list y"
    unfolding b0 b1 by (rule normal_equations(1) [OF det det_xtx_def])
  have ne2: "ols_b0 r * sum_list x + ols_b1 r * sum_list (map (\<lambda>xi. xi ^ 2) x)
             = sum_list (map (\<lambda>(xi, yi). xi * yi) (zip x y))"
    unfolding b0 b1 by (rule normal_equations(2) [OF det det_xtx_def])
  have tot2: "ols_ss_tot r = sum_list (map (\<lambda>yi. yi ^ 2) y)
       - 2 * (sum_list y / real (length x)) * sum_list y
       + real (length x) * (sum_list y / real (length x)) ^ 2"
    unfolding tot sum_sq_shift len ..
  show ?thesis
    unfolding res ss_res_expand [OF len] tot2 det_xtx_def
    by (rule decomposition_algebra [OF nz ne1 ne2])
qed

lemma ols_matrix_ss_bounds:
  assumes len: "length x = length y" and det: "det_xtx x \<noteq> 0" and n2: "length x \<noteq> 2"
    and r: "ols_matrix x y = Inr r"
  shows "0 \<le> ols_ss_res r" and "ols_ss_res r \<le> ols_ss_tot r"
proof -
  from ols_matrix_fields [OF det n2, of y] r
  have "ols_ss_res r = sum_list (map (\<lambda>r. r ^ 2)
            (map (\<lambda>(yi, yhi). yi - yhi) (zip y (map (\<lambda>xi. ols_b0 r + ols_b1 r * xi) x))))"
    by force
  then show "0 \<le> ols_ss_res r"
    by (simp only: sum_list_squares_nonneg)
  have "0 \<le> (ols_b1 r) ^ 2 * det_xtx x / real (length x)"
    using det_xtx_nonneg [of x] by simp
  then show "ols_ss_res r \<le> ols_ss_tot r"
    using ols_matrix_ss_reg [OF assms] by simp
qed

lemma ols_matrix_accepted:
  assumes "ols_matrix x y = Inr r"
  shows "det_xtx x \<noteq> 0" and "length x \<noteq> 2" and "3 \<le> length x"
proof -
  show d: "det_xtx x \<noteq> 0"
    using assms ols_matrix_singular [of x y] by auto
  then show n2: "length x \<noteq> 2"
    using assms ols_matrix_two_observations [of x y] by auto
  show "3 \<le> length x"
    using d n2 det_xtx_short [of x] by (cases "length x \<le> 1") auto
qed

lemma spec_beta_code:
  assumes "det_xtx x \<noteq> 0"
  shows "spec_beta x y =
    (sum_list (map (\<lambda>xi. xi ^ 2) x) / det_xtx x * sum_list y
       + - sum_list x / det_xtx x * sum_list (map (\<lambda>(xi, yi). xi * yi) (zip x y)),
     - sum_list x / det_xtx x * sum_list y
       + real (length x) / det_xtx x * sum_list (map (\<lambda>(xi, yi). xi * yi) (zip x y)))"
  by (simp add: spec_beta_def spec_inverse_def Let_def det_xtx_def)

lemma default_det: "det_xtx [0.5, 4, 6, 8, 10] = 269"
  by (simp add: det_xtx_def power2_eq_square)

lemma default_fit:
  "\<exists>r. ols_matrix [0.5, 4, 6, 8, 10] [6, 7, 7, 8, 7] = Inr r
      \<and> ols_b0 r = 6677 / 1076 \<and> ols_b1 r = 75 / 538"
proof -
  have d: "det_xtx [0.5, 4, 6, 8, 10] \<noteq> 0" and l: "length [0.5, 4, 6, 8, 10 :: real] \<noteq> 2"
    using default_det by simp_all
  from ols_matrix_fields [OF d l, of "[6, 7, 7, 8, 7]"]
  show ?thesis
    unfolding default_det by (auto simp: power2_eq_square)
qed



text \<open>
  C3, as the claim states it: with the two observations \<open>x = [1, 1]\<close>, \<open>y = [0, 0]\<close>
  the determinant is zero and \<open>ols_matrix\<close> fails on line 35, at the division by the
  determinant, before it reaches the division by \<open>n - 2\<close> on line 57.
\<close>

theorem ols_matrix_two_points_counterexample:
  "length [1, 1 :: real] = 2 \<and> length [0, 0 :: real] = 2
   \<and> ols_matrix [1, 1] [0, 0] = Inl (ZeroDivisionError 35)
   \<and> ols_matrix [1, 1] [0, 0] \<noteq> Inl (ZeroDivisionError 57)"
  by (simp add: ols_matrix_singular det_xtx_def)

lemma det_xtx_pair: "det_xtx [a, b] = (a - b) ^ 2"
  by (simp add: det_xtx_def power2_eq_square algebra_simps)

text \<open>
  C3 as amended. With exactly two observations \<open>ols_matrix\<close> always fails. When the
  two \<open>x\<close> values differ the determinant is not zero and the failure is the division
  \<open>ss_res / (n - 2)\<close> on line 57, zero residual degrees of freedom, which the
  specification names \<^verbatim>\<open>DegenerateDegreesOfFreedomError\<close>. When they are equal the
  determinant is zero and the failure is the one of line 35.
\<close>

theorem ols_matrix_two_points:
  assumes "length x = 2"
  shows "(det_xtx x = 0 \<longleftrightarrow> x ! 0 = x ! 1)
     \<and> ols_matrix x y = Inl (ZeroDivisionError (if x ! 0 = x ! 1 then 35 else 57))"
proof -
  from assms obtain a b where x: "x = [a, b]"
    by (cases x) (auto simp: length_Suc_conv)
  have d: "det_xtx x = 0 \<longleftrightarrow> x ! 0 = x ! 1"
    by (simp add: x det_xtx_pair)
  show ?thesis
  proof (cases "x ! 0 = x ! 1")
    case True
    with d show ?thesis by (simp add: ols_matrix_singular)
  next
    case False
    with d assms show ?thesis by (simp add: ols_matrix_two_observations)
  qed
qed

theorem ols_matrix_two_points_witness:
  "length [0, 1 :: real] = 2 \<and> ols_matrix [0, 1] [3, 5] = Inl (ZeroDivisionError 57)
   \<and> length [1, 1 :: real] = 2 \<and> ols_matrix [1, 1] [3, 5] = Inl (ZeroDivisionError 35)"
  using ols_matrix_two_points [of "[0, 1]" "[3, 5]"] ols_matrix_two_points [of "[1, 1]" "[3, 5]"]
  by simp

text \<open>
  C5, as the claim states it: on \<open>x = [0.5, 4, 6, 8, 10]\<close>, \<open>y = [6, 7, 7, 8, 7]\<close> the
  intercept is \<open>6677 / 1076\<close>, below \<open>6.21\<close>, not about \<open>6.2426\<close>, and the slope is
  \<open>75 / 538\<close>, above \<open>0.13\<close>, not about \<open>0.0827\<close>. And a non-zero determinant alone
  does not make \<open>ols_matrix\<close> return: with two observations it fails on line 57.
\<close>

theorem ols_matrix_example_counterexample:
  "map_sum id ols_b0 (ols_matrix [0.5, 4, 6, 8, 10] [6, 7, 7, 8, 7]) = Inr (6677 / 1076)
   \<and> (6677 / 1076 :: real) < 6.21
   \<and> map_sum id ols_b1 (ols_matrix [0.5, 4, 6, 8, 10] [6, 7, 7, 8, 7]) = Inr (75 / 538)
   \<and> (0.13 :: real) < 75 / 538
   \<and> length [0, 1 :: real] = length [0, 1 :: real] \<and> det_xtx [0, 1] \<noteq> 0
   \<and> ols_matrix [0, 1] [0, 1] = Inl (ZeroDivisionError 57)"
proof -
  from default_fit obtain r where "ols_matrix [0.5, 4, 6, 8, 10] [6, 7, 7, 8, 7] = Inr r"
    and "ols_b0 r = 6677 / 1076" and "ols_b1 r = 75 / 538"
    by blast
  moreover have "det_xtx [0, 1] \<noteq> 0"
    by (simp add: det_xtx_pair)
  ultimately show ?thesis
    by (simp add: ols_matrix_two_observations)
qed

text \<open>
  C5 as amended. For three observations or more and a non-zero determinant,
  \<open>ols_matrix\<close> returns, and its \<open>(b0, b1)\<close> is the closed form of the specification,
  \<open>(X'X)\<^sup>-\<^sup>1 X'Y\<close> with the inverse \<open>(1 / det) * [[d, - b], [- c, a]]\<close>. On
  \<open>x = [0.5, 4, 6, 8, 10]\<close>, \<open>y = [6, 7, 7, 8, 7]\<close> it yields \<open>b0 = 6677 / 1076\<close>, between
  \<open>6.2053\<close> and \<open>6.2054\<close>, and \<open>b1 = 75 / 538\<close>, between \<open>0.1394\<close> and \<open>0.1395\<close>.
\<close>

theorem ols_matrix_closed_form:
  "(3 \<le> length x \<and> det_xtx x \<noteq> 0 \<longrightarrow>
      (\<exists>r. ols_matrix x y = Inr r \<and> (ols_b0 r, ols_b1 r) = spec_beta x y
           \<and> ols_det r = det_xtx x))
   \<and> (\<exists>r. ols_matrix [0.5, 4, 6, 8, 10] [6, 7, 7, 8, 7] = Inr r
        \<and> ols_b0 r = 6677 / 1076 \<and> 6.2053 < ols_b0 r \<and> ols_b0 r < 6.2054
        \<and> ols_b1 r = 75 / 538 \<and> 0.1394 < ols_b1 r \<and> ols_b1 r < 0.1395)"
proof (intro conjI impI)
  assume a: "3 \<le> length x \<and> det_xtx x \<noteq> 0"
  then have d: "det_xtx x \<noteq> 0" and l: "length x \<noteq> 2" by auto
  from ols_matrix_fields [OF d l, of y]
  show "\<exists>r. ols_matrix x y = Inr r \<and> (ols_b0 r, ols_b1 r) = spec_beta x y
           \<and> ols_det r = det_xtx x"
    unfolding spec_beta_code [OF d] by auto
next
  from default_fit
  show "\<exists>r. ols_matrix [0.5, 4, 6, 8, 10] [6, 7, 7, 8, 7] = Inr r
        \<and> ols_b0 r = 6677 / 1076 \<and> 6.2053 < ols_b0 r \<and> ols_b0 r < 6.2054
        \<and> ols_b1 r = 75 / 538 \<and> 0.1394 < ols_b1 r \<and> ols_b1 r < 0.1395"
    by auto
qed

theorem ols_matrix_closed_form_witness:
  "3 \<le> length [1, 2, 4 :: real] \<and> det_xtx [1, 2, 4] \<noteq> 0
   \<and> (\<exists>r. ols_matrix [1, 2, 4] [3, 5, 9] = Inr r \<and> ols_b0 r = 1 \<and> ols_b1 r = 2)"
proof -
  have h: "3 \<le> length [1, 2, 4 :: real] \<and> det_xtx [1, 2, 4] \<noteq> 0"
    by (simp add: det_xtx_def)
  have s: "spec_beta [1, 2, 4] [3, 5, 9] = (1, 2)"
    by (simp add: spec_beta_def spec_inverse_def Let_def)
  from ols_matrix_closed_form [of "[1, 2, 4]" "[3, 5, 9]"] h
  have "\<exists>r. ols_matrix [1, 2, 4] [3, 5, 9] = Inr r
        \<and> (ols_b0 r, ols_b1 r) = spec_beta [1, 2, 4] [3, 5, 9]"
    by blast
  with h s show ?thesis by auto
qed

lemma ols_ss_tot_nonneg:
  "0 \<le> sum_list (map (\<lambda>yi. (yi - m) ^ 2) y)" for m :: real
  using sum_list_squares_nonneg [of "map (\<lambda>yi. yi - m) y"] by (simp add: comp_def)

lemma ols_matrix_fields_of:
  assumes r: "ols_matrix x y = Inr r"
  shows "ols_ss_tot r = sum_list (map (\<lambda>yi. (yi - sum_list y / real (length x)) ^ 2) y)"
    and "ols_ss_reg r = ols_ss_tot r - ols_ss_res r"
    and "ols_r_squared r = (if ols_ss_tot r > 0 then 1 - ols_ss_res r / ols_ss_tot r else 0)"
proof -
  note a = ols_matrix_accepted [OF r]
  from ols_matrix_fields [OF a(1) a(2), of y] r
  show "ols_ss_tot r = sum_list (map (\<lambda>yi. (yi - sum_list y / real (length x)) ^ 2) y)"
    and "ols_ss_reg r = ols_ss_tot r - ols_ss_res r"
    and "ols_r_squared r = (if ols_ss_tot r > 0 then 1 - ols_ss_res r / ols_ss_tot r else 0)"
    by force+
qed

text \<open>
  C6. Whenever \<open>ols_matrix\<close> returns a result, \<open>ss_tot = ss_reg + ss_res\<close>, where
  \<open>ss_tot\<close> is the sum of the squared deviations of \<open>y\<close> from \<open>\<Sigma>y / n\<close> and so is not
  negative; \<open>r_squared\<close> is \<open>1 - ss_res / ss_tot\<close> when \<open>ss_tot\<close> is positive and \<open>0\<close>
  when \<open>ss_tot\<close> is zero, which for inputs of equal length is the case of a constant \<open>y\<close>.
\<close>

theorem ols_matrix_sum_of_squares:
  assumes "ols_matrix x y = Inr r"
  shows "ols_ss_tot r = ols_ss_reg r + ols_ss_res r
     \<and> ols_ss_tot r = sum_list (map (\<lambda>yi. (yi - sum_list y / real (length x)) ^ 2) y)
     \<and> 0 \<le> ols_ss_tot r
     \<and> (0 < ols_ss_tot r \<longrightarrow> ols_r_squared r = 1 - ols_ss_res r / ols_ss_tot r)
     \<and> (ols_ss_tot r = 0 \<longrightarrow> ols_r_squared r = 0)
     \<and> (length x = length y \<longrightarrow>
          (ols_ss_tot r = 0 \<longleftrightarrow> (\<forall>a\<in>set y. \<forall>b\<in>set y. a = b)))"
proof -
  note f = ols_matrix_fields_of [OF assms]
  have nn: "0 \<le> ols_ss_tot r"
    unfolding f(1) by (rule ols_ss_tot_nonneg)
  have c: "ols_ss_tot r = 0 \<longleftrightarrow> (\<forall>a\<in>set y. \<forall>b\<in>set y. a = b)" if "length x = length y"
  proof -
    have "y \<noteq> []"
      using ols_matrix_accepted(3) [OF assms] that by auto
    then show ?thesis
      unfolding f(1) that by (rule sum_sq_mean_zero_iff)
  qed
  from f nn c show ?thesis by simp
qed

theorem ols_matrix_sum_of_squares_witness:
  "\<exists>r. ols_matrix [1, 2, 4] [7, 7, 7] = Inr r
     \<and> ols_ss_tot r = ols_ss_reg r + ols_ss_res r
     \<and> ols_ss_tot r = 0 \<and> ols_r_squared r = 0"
proof -
  have d: "det_xtx [1, 2, 4] \<noteq> 0" and l: "length [1, 2, 4 :: real] \<noteq> 2"
    by (simp_all add: det_xtx_def)
  from ols_matrix_fields [OF d l, of "[7, 7, 7]"]
  obtain r where r: "ols_matrix [1, 2, 4] [7, 7, 7] = Inr r"
    by blast
  from ols_matrix_sum_of_squares [OF r] r show ?thesis
    by auto
qed

text \<open>
  C10. For inputs of equal length, three observations or more and a non-zero
  determinant, \<open>ols_matrix\<close> returns a result with \<open>0 \<le> ss_res \<le> ss_tot\<close>, hence
  \<open>ss_reg = ss_tot - ss_res \<ge> 0\<close> and \<open>0 \<le> r_squared \<le> 1\<close>. Nothing is clamped: the
  fitted line satisfies the normal equations, which makes
  \<open>ss_tot - ss_res = b1\<^sup>2 * det / n\<close>.
\<close>

theorem ols_matrix_fit_bounds:
  assumes "length x = length y" and "3 \<le> length x" and "det_xtx x \<noteq> 0"
  shows "\<exists>r. ols_matrix x y = Inr r
     \<and> 0 \<le> ols_ss_res r \<and> ols_ss_res r \<le> ols_ss_tot r
     \<and> ols_ss_reg r = ols_ss_tot r - ols_ss_res r \<and> 0 \<le> ols_ss_reg r
     \<and> ols_ss_reg r = (ols_b1 r) ^ 2 * det_xtx x / real (length x)
     \<and> 0 \<le> ols_r_squared r \<and> ols_r_squared r \<le> 1"
proof -
  have l: "length x \<noteq> 2" using assms(2) by simp
  from ols_matrix_fields [OF assms(3) l, of y]
  obtain r where r: "ols_matrix x y = Inr r"
    by blast
  note f = ols_matrix_fields_of [OF r]
  note b = ols_matrix_ss_bounds [OF assms(1) assms(3) l r]
  have reg: "0 \<le> ols_ss_reg r"
    using b f(2) by simp
  have r2: "0 \<le> ols_r_squared r \<and> ols_r_squared r \<le> 1"
  proof (cases "0 < ols_ss_tot r")
    case True
    then have "0 \<le> ols_ss_res r / ols_ss_tot r" and "ols_ss_res r / ols_ss_tot r \<le> 1"
      using b by simp_all
    then show ?thesis using True f(3) by simp
  next
    case False
    then show ?thesis using f(3) by simp
  qed
  have formula: "ols_ss_reg r = (ols_b1 r) ^ 2 * det_xtx x / real (length x)"
    using ols_matrix_ss_reg [OF assms(1) assms(3) l r] f(2) by simp
  from r b f(2) reg formula r2 show ?thesis by blast
qed

theorem ols_matrix_fit_bounds_witness:
  "length [0.5, 4, 6, 8, 10 :: real] = length [6, 7, 7, 8, 7 :: real]
   \<and> 3 \<le> length [0.5, 4, 6, 8, 10 :: real]
   \<and> det_xtx [0.5, 4, 6, 8, 10] \<noteq> 0
   \<and> (\<exists>r. ols_matrix [0.5, 4, 6, 8, 10] [6, 7, 7, 8, 7] = Inr r
        \<and> 0 \<le> ols_ss_res r \<and> ols_ss_res r \<le> ols_ss_tot r \<and> 0 \<le> ols_ss_reg r
        \<and> 0 \<le> ols_r_squared r \<and> ols_r_squared r \<le> 1)"
proof -
  have d: "det_xtx [0.5, 4, 6, 8, 10] \<noteq> 0"
    using default_det by simp
  from ols_matrix_fit_bounds [of "[0.5, 4, 6, 8, 10]" "[6, 7, 7, 8, 7]", OF _ _ d] d
  show ?thesis by auto
qed

section \<open>Sampling\<close>

lemma z_table_None: "z_table c = None \<longleftrightarrow> c \<notin> {80, 85, 90, 95, 99}"
  by (simp add: z_table_def)

lemma z_table_dom: "z_table c \<noteq> None \<longleftrightarrow> c \<in> {80, 85, 90, 95, 99}"
  by (simp only: z_table_None) simp

lemma z_score_table: "z_table c = Some z \<Longrightarrow> z_score q c = Inr z"
  by (simp add: z_score_def)

lemma z_score_other:
  assumes "z_table c = None"
  shows "z_score q c =
    (if c \<le> - 100 \<or> 100 \<le> c then Inl (StatisticsError 63)
     else Inr (q (0.5 + real_of_int c / 200)))"
  using assms by (auto simp: z_score_def inv_cdf_def)

lemma z_score_returns:
  assumes "z_table c \<noteq> None \<or> (- 100 < c \<and> c < 100)"
  shows "\<exists>z. z_score q c = Inr z"
proof (cases "z_table c")
  case None
  with assms show ?thesis by (simp add: z_score_other)
next
  case (Some z)
  then show ?thesis by (simp add: z_score_table)
qed

lemma sample_size_infinite_returns:
  "precision \<noteq> 0 \<Longrightarrow> sample_size_infinite z cv precision = Inr ((z * cv / precision) ^ 2)"
  by (simp add: sample_size_infinite_def)

lemma sample_size_finite_returns:
  "0 \<le> n0 \<Longrightarrow> 0 < N \<Longrightarrow> sample_size_finite n0 N = Inr (n0 * N / (n0 + N))"
  by (simp add: sample_size_finite_def)

lemma finite_correction_le:
  fixes n0 N :: real
  assumes "0 \<le> n0" "0 < N"
  shows "n0 * N / (n0 + N) \<le> n0"
proof -
  have "n0 * N \<le> n0 * (n0 + N)"
    using assms by (intro mult_left_mono) simp_all
  then show ?thesis
    using assms by (simp add: pos_divide_le_eq)
qed

lemma finite_correction_mono:
  fixes n0 N1 N2 :: real
  assumes "0 \<le> n0" "0 < N1" "N1 \<le> N2"
  shows "n0 * N1 / (n0 + N1) \<le> n0 * N2 / (n0 + N2)"
proof -
  have p1: "0 < n0 + N1" and p2: "0 < n0 + N2" using assms by simp_all
  have "n0 * n0 * N1 \<le> n0 * n0 * N2"
    using assms by (intro mult_left_mono) simp_all
  then have "n0 * N1 * (n0 + N2) \<le> n0 * N2 * (n0 + N1)"
    by (simp add: algebra_simps)
  then show ?thesis
    using p1 p2 by (simp add: frac_le_eq divide_le_0_iff field_simps)
qed

lemma finite_correction_less:
  fixes n0 N :: real
  assumes "0 < n0" "0 < N"
  shows "n0 * N / (n0 + N) < n0"
proof -
  have "n0 * N < n0 * (n0 + N)"
    using assms by (intro mult_strict_left_mono) simp_all
  then show ?thesis
    using assms by (simp add: pos_divide_less_eq)
qed

lemma finite_correction_strict_mono:
  fixes n0 N1 N2 :: real
  assumes "0 < n0" "0 < N1" "N1 < N2"
  shows "n0 * N1 / (n0 + N1) < n0 * N2 / (n0 + N2)"
proof -
  have p1: "0 < n0 + N1" and p2: "0 < n0 + N2" using assms by simp_all
  have "n0 * n0 * N1 < n0 * n0 * N2"
    using assms by (intro mult_strict_left_mono) simp_all
  then have "n0 * N1 * (n0 + N2) < n0 * N2 * (n0 + N1)"
    by (simp add: algebra_simps)
  then show ?thesis
    using p1 p2 by (simp add: frac_less_eq divide_less_0_iff field_simps)
qed

lemma traverse_returns:
  assumes "\<forall>a\<in>set as. \<exists>b. f a = Inr b"
  shows "\<exists>bs. traverse f as = Inr bs"
  using assms
proof (induction as)
  case Nil
  show ?case by simp
next
  case (Cons a as)
  then obtain b bs where "f a = Inr b" "traverse f as = Inr bs"
    by auto
  then show ?case by simp
qed

lemma scenario_row_returns:
  assumes "conf \<in> {80, 90, 95}" "prec \<noteq> 0"
    and "pop_size = None \<or> (\<exists>N. pop_size = Some N \<and> 0 \<le> N)"
  shows "\<exists>row. scenario_row q cv pop_size (conf, prec) = Inr row"
proof -
  obtain z where z: "z_score q conf = Inr z"
    using assms(1) z_score_returns [of conf q] by (auto simp: z_table_dom)
  have n0: "sample_size_infinite z cv prec = Inr ((z * cv / prec) ^ 2)"
    using assms(2) by (rule sample_size_infinite_returns)
  show ?thesis
  proof (cases "truthy pop_size")
    case False
    with z n0 show ?thesis by (simp add: scenario_row_def)
  next
    case True
    with assms(3) obtain N where N: "pop_size = Some N" "0 < N"
      by (auto simp: truthy_def)
    have "sample_size_finite ((z * cv / prec) ^ 2) (real_of_int N)
          = Inr ((z * cv / prec) ^ 2 * real_of_int N / ((z * cv / prec) ^ 2 + real_of_int N))"
      using N(2) by (intro sample_size_finite_returns) simp_all
    with z n0 True N show ?thesis by (simp add: scenario_row_def)
  qed
qed

lemma scenarios_return:
  assumes "pop_size = None \<or> (\<exists>N. pop_size = Some N \<and> 0 \<le> N)"
  shows "\<exists>rows. traverse (scenario_row q cv pop_size)
           (concat (map (\<lambda>conf. map (\<lambda>prec. (conf, prec)) [0.05, 0.10, 0.20]) [80, 90, 95]))
         = Inr rows"
proof (rule traverse_returns, rule ballI)
  fix a :: "int \<times> real"
  assume "a \<in> set (concat (map (\<lambda>conf. map (\<lambda>prec. (conf, prec)) [0.05, 0.10, 0.20]) [80, 90, 95]))"
  then have "fst a \<in> {80, 90, 95}" and "snd a \<noteq> 0"
    by auto
  from scenario_row_returns [OF this assms]
  show "\<exists>b. scenario_row q cv pop_size a = Inr b"
    by simp
qed

lemma run_sample_size_calc_returns:
  assumes z: "z_score q confidence = Inr z" and p: "precision \<noteq> 0"
    and pop: "pop_size = None \<or> (\<exists>N. pop_size = Some N \<and> 0 \<le> N)"
  shows "\<exists>rows. run_sample_size_calc q cv precision confidence pop_size =
    Inr \<lparr>ssr_z = z, ssr_n0 = (z * cv / precision) ^ 2,
         ssr_n_final =
           (if truthy pop_size
            then Some ((z * cv / precision) ^ 2 * real_of_int (the pop_size)
                       / ((z * cv / precision) ^ 2 + real_of_int (the pop_size)))
            else None),
         ssr_scenarios = rows\<rparr>"
proof -
  obtain rows where rows: "traverse (scenario_row q cv pop_size)
           (concat (map (\<lambda>conf. map (\<lambda>prec. (conf, prec)) [0.05, 0.10, 0.20]) [80, 90, 95]))
         = Inr rows"
    using scenarios_return [OF pop] by blast
  have n0: "sample_size_infinite z cv precision = Inr ((z * cv / precision) ^ 2)"
    using p by (rule sample_size_infinite_returns)
  show ?thesis
  proof (cases "truthy pop_size")
    case False
    with z n0 rows show ?thesis
      unfolding run_sample_size_calc_def by simp
  next
    case True
    with pop obtain N where N: "pop_size = Some N" "0 < N"
      by (auto simp: truthy_def)
    have "sample_size_finite ((z * cv / precision) ^ 2) (real_of_int (the pop_size))
          = Inr ((z * cv / precision) ^ 2 * real_of_int (the pop_size)
                 / ((z * cv / precision) ^ 2 + real_of_int (the pop_size)))"
      using N by (intro sample_size_finite_returns) simp_all
    with z n0 rows True show ?thesis
      unfolding run_sample_size_calc_def by simp
  qed
qed

lemma run_sample_size_calc_no_z:
  assumes "z_score q confidence = Inl e"
  shows "run_sample_size_calc q cv precision confidence pop_size = Inl e"
  using assms by (simp add: run_sample_size_calc_def)

text \<open>
  C7, as the claim states it: for a confidence of 100 per cent, which is not in the
  table, \<open>z_score\<close> asks for the quantile at \<open>0.5 + 100 / 200 = 1\<close>, outside the open
  interval on which the inverse distribution function is defined; the call raises, and
  no \<open>n0\<close> is returned, whatever the quantile function is.
\<close>

theorem required_sample_size_counterexample:
  "(0 :: real) < 0.25 \<and> (0 :: real) < 0.10
   \<and> run_sample_size_calc id 0.25 0.10 100 None = Inl (StatisticsError 63)"
  by (simp add: run_sample_size_calc_no_z z_score_other z_table_None)

text \<open>
  C7 as amended. Let \<open>cv\<close> and \<open>precision\<close> be positive and let the confidence be in
  the table or strictly between \<open>- 100\<close> and \<open>100\<close>. Then \<open>z_score\<close> returns a \<open>z\<close>, and
  the calculation returns \<open>n0 = (z * cv / precision)\<^sup>2\<close>. With a population size
  \<open>N > 0\<close> it also returns \<open>n_final = n0 * N / (n0 + N)\<close>, which is at most \<open>n0\<close> and
  does not grow when \<open>N\<close> shrinks; when \<open>z\<close> is not zero it is below \<open>n0\<close> and shrinks
  strictly with \<open>N\<close>. For 90 per cent, \<open>cv = 0.25\<close> and precision \<open>0.10\<close>,
  \<open>n0 = 16.91265625\<close>, which is \<open>16.9\<close> to one decimal.
\<close>

theorem required_sample_size:
  "(0 < cv \<and> 0 < precision
      \<and> (confidence \<in> {80, 85, 90, 95, 99} \<or> (- 100 < confidence \<and> confidence < 100)) \<longrightarrow>
      (\<exists>z. z_score q confidence = Inr z
        \<and> (\<exists>rep. run_sample_size_calc q cv precision confidence None = Inr rep
              \<and> ssr_z rep = z \<and> ssr_n0 rep = (z * cv / precision) ^ 2
              \<and> ssr_n_final rep = None)
        \<and> (\<forall>N. 0 < N \<longrightarrow>
             (\<exists>rep. run_sample_size_calc q cv precision confidence (Some N) = Inr rep
                \<and> ssr_z rep = z \<and> ssr_n0 rep = (z * cv / precision) ^ 2
                \<and> ssr_n_final rep = Some (ssr_n0 rep * real_of_int N / (ssr_n0 rep + real_of_int N))
                \<and> ssr_n0 rep * real_of_int N / (ssr_n0 rep + real_of_int N) \<le> ssr_n0 rep
                \<and> (z \<noteq> 0 \<longrightarrow>
                     ssr_n0 rep * real_of_int N / (ssr_n0 rep + real_of_int N) < ssr_n0 rep)))
        \<and> (\<forall>N1 N2. 0 < N1 \<and> N1 \<le> N2 \<longrightarrow>
             (\<exists>rep1 rep2 f1 f2.
                run_sample_size_calc q cv precision confidence (Some N1) = Inr rep1
                \<and> run_sample_size_calc q cv precision confidence (Some N2) = Inr rep2
                \<and> ssr_n_final rep1 = Some f1 \<and> ssr_n_final rep2 = Some f2 \<and> f1 \<le> f2
                \<and> (z \<noteq> 0 \<and> N1 < N2 \<longrightarrow> f1 < f2)))))
   \<and> (\<exists>rep. run_sample_size_calc q 0.25 0.10 90 None = Inr rep
        \<and> ssr_z rep = 1.645 \<and> ssr_n0 rep = (1.645 * 0.25 / 0.10) ^ 2
        \<and> ssr_n0 rep = 16.91265625 \<and> \<bar>ssr_n0 rep - 16.9\<bar> < 0.05)"
proof (intro conjI impI)
  assume a: "0 < cv \<and> 0 < precision
      \<and> (confidence \<in> {80, 85, 90, 95, 99} \<or> (- 100 < confidence \<and> confidence < 100))"
  then have p: "precision \<noteq> 0" by simp
  from a obtain z where z: "z_score q confidence = Inr z"
    using z_score_returns [of confidence q] by (auto simp only: z_table_dom)
  let ?n0 = "(z * cv / precision) ^ 2"
  have n0: "0 \<le> ?n0" by simp
  have none: "\<exists>rep. run_sample_size_calc q cv precision confidence None = Inr rep
              \<and> ssr_z rep = z \<and> ssr_n0 rep = ?n0 \<and> ssr_n_final rep = None"
    using run_sample_size_calc_returns [OF z p, of None cv] by (auto simp: truthy_def)
  have some: "\<exists>rep. run_sample_size_calc q cv precision confidence (Some N) = Inr rep
                \<and> ssr_z rep = z \<and> ssr_n0 rep = ?n0
                \<and> ssr_n_final rep = Some (?n0 * real_of_int N / (?n0 + real_of_int N))"
    if "0 < N" for N
    using run_sample_size_calc_returns [OF z p, of "Some N" cv] that by (auto simp: truthy_def)
  have fin: "\<forall>N. 0 < N \<longrightarrow>
             (\<exists>rep. run_sample_size_calc q cv precision confidence (Some N) = Inr rep
                \<and> ssr_z rep = z \<and> ssr_n0 rep = ?n0
                \<and> ssr_n_final rep = Some (ssr_n0 rep * real_of_int N / (ssr_n0 rep + real_of_int N))
                \<and> ssr_n0 rep * real_of_int N / (ssr_n0 rep + real_of_int N) \<le> ssr_n0 rep
                \<and> (z \<noteq> 0 \<longrightarrow>
                     ssr_n0 rep * real_of_int N / (ssr_n0 rep + real_of_int N) < ssr_n0 rep))"
  proof (intro allI impI)
    fix N :: int
    assume N: "0 < N"
    from some [OF N] obtain rep where rep:
      "run_sample_size_calc q cv precision confidence (Some N) = Inr rep"
      "ssr_z rep = z" "ssr_n0 rep = ?n0"
      "ssr_n_final rep = Some (?n0 * real_of_int N / (?n0 + real_of_int N))"
      by blast
    have "?n0 * real_of_int N / (?n0 + real_of_int N) \<le> ?n0"
      using n0 N by (intro finite_correction_le) simp_all
    moreover have "?n0 * real_of_int N / (?n0 + real_of_int N) < ?n0" if "z \<noteq> 0"
      using that a N by (intro finite_correction_less) simp_all
    ultimately show "\<exists>rep. run_sample_size_calc q cv precision confidence (Some N) = Inr rep
                \<and> ssr_z rep = z \<and> ssr_n0 rep = ?n0
                \<and> ssr_n_final rep = Some (ssr_n0 rep * real_of_int N / (ssr_n0 rep + real_of_int N))
                \<and> ssr_n0 rep * real_of_int N / (ssr_n0 rep + real_of_int N) \<le> ssr_n0 rep
                \<and> (z \<noteq> 0 \<longrightarrow>
                     ssr_n0 rep * real_of_int N / (ssr_n0 rep + real_of_int N) < ssr_n0 rep)"
      using rep by auto
  qed
  have mono: "\<forall>N1 N2. 0 < N1 \<and> N1 \<le> N2 \<longrightarrow>
             (\<exists>rep1 rep2 f1 f2.
                run_sample_size_calc q cv precision confidence (Some N1) = Inr rep1
                \<and> run_sample_size_calc q cv precision confidence (Some N2) = Inr rep2
                \<and> ssr_n_final rep1 = Some f1 \<and> ssr_n_final rep2 = Some f2 \<and> f1 \<le> f2
                \<and> (z \<noteq> 0 \<and> N1 < N2 \<longrightarrow> f1 < f2))"
  proof (intro allI impI)
    fix N1 N2 :: int
    assume N: "0 < N1 \<and> N1 \<le> N2"
    then have N1: "0 < N1" and N2: "0 < N2" by auto
    from some [OF N1] obtain rep1 where rep1:
      "run_sample_size_calc q cv precision confidence (Some N1) = Inr rep1"
      "ssr_n_final rep1 = Some (?n0 * real_of_int N1 / (?n0 + real_of_int N1))"
      by blast
    from some [OF N2] obtain rep2 where rep2:
      "run_sample_size_calc q cv precision confidence (Some N2) = Inr rep2"
      "ssr_n_final rep2 = Some (?n0 * real_of_int N2 / (?n0 + real_of_int N2))"
      by blast
    have "?n0 * real_of_int N1 / (?n0 + real_of_int N1)
          \<le> ?n0 * real_of_int N2 / (?n0 + real_of_int N2)"
      using n0 N by (intro finite_correction_mono) simp_all
    moreover have "?n0 * real_of_int N1 / (?n0 + real_of_int N1)
          < ?n0 * real_of_int N2 / (?n0 + real_of_int N2)" if "z \<noteq> 0 \<and> N1 < N2"
      using that a N by (intro finite_correction_strict_mono) simp_all
    ultimately show "\<exists>rep1 rep2 f1 f2.
                run_sample_size_calc q cv precision confidence (Some N1) = Inr rep1
                \<and> run_sample_size_calc q cv precision confidence (Some N2) = Inr rep2
                \<and> ssr_n_final rep1 = Some f1 \<and> ssr_n_final rep2 = Some f2 \<and> f1 \<le> f2
                \<and> (z \<noteq> 0 \<and> N1 < N2 \<longrightarrow> f1 < f2)"
      using rep1 rep2 by auto
  qed
  from z none fin mono
  show "\<exists>z. z_score q confidence = Inr z
        \<and> (\<exists>rep. run_sample_size_calc q cv precision confidence None = Inr rep
              \<and> ssr_z rep = z \<and> ssr_n0 rep = (z * cv / precision) ^ 2
              \<and> ssr_n_final rep = None)
        \<and> (\<forall>N. 0 < N \<longrightarrow>
             (\<exists>rep. run_sample_size_calc q cv precision confidence (Some N) = Inr rep
                \<and> ssr_z rep = z \<and> ssr_n0 rep = (z * cv / precision) ^ 2
                \<and> ssr_n_final rep = Some (ssr_n0 rep * real_of_int N / (ssr_n0 rep + real_of_int N))
                \<and> ssr_n0 rep * real_of_int N / (ssr_n0 rep + real_of_int N) \<le> ssr_n0 rep
                \<and> (z \<noteq> 0 \<longrightarrow>
                     ssr_n0 rep * real_of_int N / (ssr_n0 rep + real_of_int N) < ssr_n0 rep)))
        \<and> (\<forall>N1 N2. 0 < N1 \<and> N1 \<le> N2 \<longrightarrow>
             (\<exists>rep1 rep2 f1 f2.
                run_sample_size_calc q cv precision confidence (Some N1) = Inr rep1
                \<and> run_sample_size_calc q cv precision confidence (Some N2) = Inr rep2
                \<and> ssr_n_final rep1 = Some f1 \<and> ssr_n_final rep2 = Some f2 \<and> f1 \<le> f2
                \<and> (z \<noteq> 0 \<and> N1 < N2 \<longrightarrow> f1 < f2)))"
    by blast
next
  have z: "z_score q 90 = Inr 1.645"
    by (rule z_score_table) (simp add: z_table_def)
  have p: "(0.10 :: real) \<noteq> 0" by simp
  from run_sample_size_calc_returns [OF z p, of None "0.25"]
  obtain rep where rep: "run_sample_size_calc q 0.25 0.10 90 None = Inr rep"
    "ssr_z rep = 1.645" "ssr_n0 rep = (1.645 * 0.25 / 0.10) ^ 2"
    by auto
  have v: "(1.645 * 0.25 / 0.10 :: real) ^ 2 = 16.91265625"
    by (simp add: power2_eq_square)
  from rep v show "\<exists>rep. run_sample_size_calc q 0.25 0.10 90 None = Inr rep
        \<and> ssr_z rep = 1.645 \<and> ssr_n0 rep = (1.645 * 0.25 / 0.10) ^ 2
        \<and> ssr_n0 rep = 16.91265625 \<and> \<bar>ssr_n0 rep - 16.9\<bar> < 0.05"
    by (intro exI [of _ rep]) simp
qed

theorem required_sample_size_witness:
  "(0 :: real) < 0.25 \<and> (0 :: real) < 0.10 \<and> (95 :: int) \<in> {80, 85, 90, 95, 99}
   \<and> z_score id 95 = Inr 1.960
   \<and> (\<exists>rep f. run_sample_size_calc id 0.25 0.10 95 (Some 1000) = Inr rep
         \<and> ssr_n0 rep = (1.960 * 0.25 / 0.10) ^ 2
         \<and> ssr_n_final rep = Some f \<and> f \<le> ssr_n0 rep)"
proof -
  have h: "(0 :: real) < 0.25 \<and> (0 :: real) < 0.10
      \<and> ((95 :: int) \<in> {80, 85, 90, 95, 99} \<or> (- 100 < (95 :: int) \<and> (95 :: int) < 100))"
    by simp
  have z95: "z_score id 95 = Inr 1.960"
    by (rule z_score_table) (simp add: z_table_def)
  from required_sample_size [of "0.25" "0.10" 95 id] h
  obtain z where z: "z_score id 95 = Inr z"
    and fin: "\<forall>N. 0 < N \<longrightarrow>
             (\<exists>rep. run_sample_size_calc id 0.25 0.10 95 (Some N) = Inr rep
                \<and> ssr_z rep = z \<and> ssr_n0 rep = (z * 0.25 / 0.10) ^ 2
                \<and> ssr_n_final rep = Some (ssr_n0 rep * real_of_int N / (ssr_n0 rep + real_of_int N))
                \<and> ssr_n0 rep * real_of_int N / (ssr_n0 rep + real_of_int N) \<le> ssr_n0 rep
                \<and> (z \<noteq> 0 \<longrightarrow>
                     ssr_n0 rep * real_of_int N / (ssr_n0 rep + real_of_int N) < ssr_n0 rep))"
    by blast
  from z z95 have zv: "z = 1.960" by simp
  from fin [rule_format, of 1000] obtain rep where
    "run_sample_size_calc id 0.25 0.10 95 (Some 1000) = Inr rep"
    "ssr_n0 rep = (z * 0.25 / 0.10) ^ 2"
    "ssr_n_final rep = Some (ssr_n0 rep * real_of_int 1000 / (ssr_n0 rep + real_of_int 1000))"
    "ssr_n0 rep * real_of_int 1000 / (ssr_n0 rep + real_of_int 1000) \<le> ssr_n0 rep"
    by auto
  with zv have "\<exists>rep f. run_sample_size_calc id 0.25 0.10 95 (Some 1000) = Inr rep
         \<and> ssr_n0 rep = (1.960 * 0.25 / 0.10) ^ 2
         \<and> ssr_n_final rep = Some f \<and> f \<le> ssr_n0 rep"
    by blast
  with z95 show ?thesis by simp
qed

lemma gauss_draws_values:
  "fst (gauss_draws R mean std_dev k g) = map (max 0) (gauss_values R mean std_dev k g)"
  by (induction k arbitrary: g) (simp_all add: split_beta Let_def)

lemma gauss_values_length: "length (gauss_values R mean std_dev k g) = k"
  by (induction k arbitrary: g) (simp_all add: split_beta Let_def)

text \<open>
  C9. \<open>generate_population\<close> returns one value for each of the \<open>n\<close> draws (none when
  \<open>n\<close> is negative), and each value is the draw of the generator clamped at zero, so no
  element is negative, whatever the mean, the deviation, the seed and the generator.
\<close>

theorem generate_population_nonneg:
  "length (fst (generate_population R mean std_dev n seed g)) = nat n
   \<and> (0 \<le> n \<longrightarrow> int (length (fst (generate_population R mean std_dev n seed g))) = n)
   \<and> (\<forall>v\<in>set (fst (generate_population R mean std_dev n seed g)). 0 \<le> v)
   \<and> fst (generate_population R mean std_dev n seed g)
       = map (max 0) (gauss_values R mean std_dev (nat n) (reseed R seed g))"
  by (auto simp: generate_population_def gauss_draws_values gauss_values_length)

lemma gauss_values_numeral:
  "gauss_values R mean std_dev (numeral k) g =
     (let (v, g1) = rnd_gauss R g mean std_dev in v # gauss_values R mean std_dev (pred_numeral k) g1)"
  by (simp add: numeral_eq_Suc)

theorem generate_population_nonneg_witness:
  "(0 :: int) \<le> 4
   \<and> gauss_values lcg 1 1 4 (rnd_seed lcg 42) = [- 2, 3, 3, - 1]
   \<and> fst (generate_population lcg 1 1 4 (Some 42) 0) = [0, 3, 3, 0]
   \<and> int (length (fst (generate_population lcg 1 1 4 (Some 42) 0))) = 4"
proof -
  have v: "gauss_values lcg 1 1 4 (rnd_seed lcg 42) = [- 2, 3, 3, - 1]"
    by (simp add: lcg_def lcg_next_def gauss_values_numeral)
  from generate_population_nonneg [of lcg 1 1 4 "Some 42" 0] v
  show ?thesis
    by (simp add: reseed_def)
qed










end
